theory Spec2Isabelle
  imports Complex_Main
begin

section \<open>Numerical integration with tensors: the quadrature notebook\<close>

text \<open>
  The notebook \<^verbatim>\<open>00a - Computing integrals\<close> defines four quadrature functions over a
  rank-1 tensor \<open>h\<close> (the partition) and an integrand \<open>f\<close>.  In the notebook the
  integrand is a function on tensors (\<^verbatim>\<open>tf.sin\<close>); the specification has it applied
  elementwise, and so it is here: a function on elements, applied to every element.

  The four functions are written down twice, line by line the same.  First in exact
  arithmetic: tensors are lists of reals and no operation rounds or overflows.  This is
  the arithmetic of the specification's data model (a partition is a sequence of real
  numbers) and says which formula each function evaluates; the one value that is not a
  real there is the mean of an empty tensor, NaN.  Then in float64, the arithmetic in which
  the notebook runs them (\<^verbatim>\<open>dtype=tf.float64\<close>): every operation rounds its exact
  result to the nearest float64, overflows to an infinity and propagates NaN.
\<close>

subsection \<open>Errors and values\<close>

text \<open>
  The errors a call can end with: those Python and the tensor library raise, and the
  InvalidInputError of the specification, which nothing in the notebook defines or raises.
\<close>

datatype error = NameError | AttributeError | IndexError | InvalidArgumentError | InvalidInputError

datatype scalar = Val real | NaN

definition bindE :: "error + 'a \<Rightarrow> ('a \<Rightarrow> error + 'b) \<Rightarrow> error + 'b" where
  "bindE m k = (case m of Inl e \<Rightarrow> Inl e | Inr v \<Rightarrow> k v)"

subsection \<open>The tensor operations the notebook calls\<close>

text \<open>
  \<^verbatim>\<open>tf.slice(input, [begin], [size])\<close> on a rank-1 tensor.  A size of \<open>-1\<close> stands for
  all the remaining elements; the operation then checks \<open>begin\<close> and \<open>size\<close> against
  the dimension and raises InvalidArgumentError when they do not fit.
\<close>

definition tf_slice :: "'a list \<Rightarrow> int \<Rightarrow> int \<Rightarrow> error + 'a list" where
  "tf_slice xs b s =
     (let d = int (length xs);
          s' = (if s = - 1 then d - b else s)
      in if d = 0 then (if b = 0 \<and> s' = 0 then Inr [] else Inl InvalidArgumentError)
         else if 0 \<le> b \<and> b \<le> d \<and> 0 \<le> s' \<and> b + s' \<le> d
              then Inr (take (nat s') (drop (nat b) xs))
              else Inl InvalidArgumentError)"

text \<open>
  Elementwise arithmetic on two rank-1 tensors (\<^verbatim>\<open>a - b\<close>, \<^verbatim>\<open>a * b\<close>, \<^verbatim>\<open>a + b\<close>),
  for the operation \<open>g\<close> on elements: equal shapes combine pointwise, a one-element
  tensor is broadcast, any other pair of shapes is rejected.
\<close>

definition tensor_binop ::
  "('a \<Rightarrow> 'a \<Rightarrow> 'a) \<Rightarrow> 'a list \<Rightarrow> 'a list \<Rightarrow> error + 'a list" where
  "tensor_binop g xs ys =
     (if length xs = length ys then Inr (map2 g xs ys)
      else if length xs = 1 then Inr (map (g (hd xs)) ys)
      else if length ys = 1 then Inr (map (\<lambda>x. g x (hd ys)) xs)
      else Inl InvalidArgumentError)"

text \<open>\<^verbatim>\<open>tf.reduce_sum\<close> in exact arithmetic: the sum of all elements, 0 for an empty tensor.\<close>

definition reduce_sum :: "real list \<Rightarrow> real" where
  "reduce_sum xs = sum_list xs"

text \<open>
  \<^verbatim>\<open>tf.reduce_mean\<close> in exact arithmetic: the sum divided by the number of elements, NaN
  for an empty tensor.
\<close>

definition reduce_mean :: "real list \<Rightarrow> scalar" where
  "reduce_mean xs = (if xs = [] then NaN else Val (sum_list xs / real (length xs)))"

text \<open>Arithmetic of a scalar with a real: NaN stays NaN.\<close>

fun scalar_div :: "scalar \<Rightarrow> real \<Rightarrow> scalar" where
  "scalar_div (Val a) c = Val (a / c)"
| "scalar_div NaN c = NaN"

fun scalar_mul :: "scalar \<Rightarrow> real \<Rightarrow> scalar" where
  "scalar_mul (Val a) c = Val (a * c)"
| "scalar_mul NaN c = NaN"

text \<open>
  \<^verbatim>\<open>h[i]\<close> with an integer index: a negative index counts from the end, an index outside
  the tensor raises.
\<close>

definition tf_index :: "'a list \<Rightarrow> int \<Rightarrow> error + 'a" where
  "tf_index xs i =
     (if 0 \<le> i \<and> i < int (length xs) then Inr (xs ! nat i)
      else if i < 0 \<and> - int (length xs) \<le> i then Inr (xs ! nat (int (length xs) + i))
      else Inl InvalidArgumentError)"

text \<open>
  \<^verbatim>\<open>h[b:e:k]\<close> with a positive step: negative bounds count from the end, bounds outside
  the tensor are clamped, and the elements at \<open>b, b + k, b + 2k, \<dots>\<close> below \<open>e\<close> are
  kept.  A slice never raises.
\<close>

definition strided_slice :: "'a list \<Rightarrow> int \<Rightarrow> int \<Rightarrow> nat \<Rightarrow> 'a list" where
  "strided_slice xs b e k =
     (let n = int (length xs);
          b' = nat (if b < 0 then max 0 (b + n) else min b n);
          e' = nat (if e < 0 then max 0 (e + n) else min e n)
      in map (\<lambda>i. xs ! i) (filter (\<lambda>i. (i - b') mod k = 0) [b' ..< e']))"

subsection \<open>The quadrature functions of the notebook, in exact arithmetic\<close>

text \<open>
  \<^verbatim>\<open>
  def left_riemann_sum(f, h):
      left_points = tf.slice(h, [0], [h.get_shape()[0] - 1])
      right_points = tf.slice(h, [1], [h.get_shape()[0] - 1])
      intervals_length = right_points - left_points
      y = f(left_points)
      return tf.reduce_sum(y * intervals_length)
  \<close>
\<close>

definition left_riemann_sum :: "(real \<Rightarrow> real) \<Rightarrow> real list \<Rightarrow> error + scalar" where
  "left_riemann_sum f h =
     bindE (tf_slice h 0 (int (length h) - 1)) (\<lambda>left_points.
     bindE (tf_slice h 1 (int (length h) - 1)) (\<lambda>right_points.
     bindE (tensor_binop (-) right_points left_points) (\<lambda>intervals_length.
     let y = map f left_points in
     bindE (tensor_binop (*) y intervals_length) (\<lambda>p.
     Inr (Val (reduce_sum p))))))"

text \<open>The same with \<^verbatim>\<open>y = f(right_points)\<close>.\<close>

definition right_riemann_sum :: "(real \<Rightarrow> real) \<Rightarrow> real list \<Rightarrow> error + scalar" where
  "right_riemann_sum f h =
     bindE (tf_slice h 0 (int (length h) - 1)) (\<lambda>left_points.
     bindE (tf_slice h 1 (int (length h) - 1)) (\<lambda>right_points.
     bindE (tensor_binop (-) right_points left_points) (\<lambda>intervals_length.
     let y = map f right_points in
     bindE (tensor_binop (*) y intervals_length) (\<lambda>p.
     Inr (Val (reduce_sum p))))))"

text \<open>
  \<^verbatim>\<open>
  def trapezoidal_rule(f, h):
      left_points = tf.slice(h, [0], [h.get_shape()[0] - 1])
      right_points = tf.slice(h, [1], [h.get_shape()[0] - 1])
      intervals_length = right_points - left_points
      left_y = f(left_points)
      right_y = f(right_points)
      interval_height = left_y + right_y
      return tf.reduce_sum(1/2 * (intervals_length) * (interval_height))
  \<close>
  \<^verbatim>\<open>1/2\<close> is the Python float 0.5, which multiplies every element.
\<close>

definition trapezoidal_rule :: "(real \<Rightarrow> real) \<Rightarrow> real list \<Rightarrow> error + scalar" where
  "trapezoidal_rule f h =
     bindE (tf_slice h 0 (int (length h) - 1)) (\<lambda>left_points.
     bindE (tf_slice h 1 (int (length h) - 1)) (\<lambda>right_points.
     bindE (tensor_binop (-) right_points left_points) (\<lambda>intervals_length.
     let left_y = map f left_points; right_y = map f right_points in
     bindE (tensor_binop (+) left_y right_y) (\<lambda>interval_height.
     bindE (tensor_binop (*) (map (\<lambda>x. 1 / 2 * x) intervals_length) interval_height) (\<lambda>p.
     Inr (Val (reduce_sum p)))))))"

text \<open>
  \<^verbatim>\<open>
  def simpson_rule(f, h):
      left_points = tf.slice(h, [0], [h.get_shape()[0] - 1])
      right_points = tf.slice(h, [1], [h.get_shape()[0] - 1])
      interval_length = right_points - left_points
      average_interval_lenght = tf.reduce_mean(interval_length)
      return average_interval_lenght / 3 * (
          f(h[0]) + 2 * tf.reduce_sum(f(h[1:-1:2])) + 4*tf.reduce_sum(f(h[2:-1:2])) + f(h[-1]))
  \<close>
\<close>

definition simpson_rule :: "(real \<Rightarrow> real) \<Rightarrow> real list \<Rightarrow> error + scalar" where
  "simpson_rule f h =
     bindE (tf_slice h 0 (int (length h) - 1)) (\<lambda>left_points.
     bindE (tf_slice h 1 (int (length h) - 1)) (\<lambda>right_points.
     bindE (tensor_binop (-) right_points left_points) (\<lambda>interval_length.
     let average_interval_lenght = reduce_mean interval_length in
     bindE (tf_index h 0) (\<lambda>h0.
     bindE (tf_index h (- 1)) (\<lambda>hl.
     Inr (scalar_mul (scalar_div average_interval_lenght 3)
           (f h0 + 2 * reduce_sum (map f (strided_slice h 1 (- 1) 2))
                 + 4 * reduce_sum (map f (strided_slice h 2 (- 1) 2)) + f hl)))))))"

subsection \<open>The first document of the notebook\<close>

text \<open>
  The notebook file holds an earlier document whose two Riemann sums read the shape of a
  name \<open>t\<close> that is neither a parameter nor a local:
  \<^verbatim>\<open>
  def left_riemann_sum(f, h):
      left_points = tf.slice(h, [0], [t.get_shape()[0] - 1])
      right_points = tf.slice(h, [1], [t.get_shape()[0] - 1])
      intervals_length = right_points - left_points
      y = f(left_points)
      return tf.reduce_sum(y * intervals_length)
  \<close>
  Python looks such a name up among the globals of the notebook when the call runs.  The
  globals are a map from names to values; of a value only its kind matters here: a rank-1
  tensor has a first dimension, a scalar tensor has an empty shape, and any other object
  (module, function, float, int, list) has no \<^verbatim>\<open>get_shape\<close>.
\<close>

datatype pyval = Tensor "real list" | ScalarTensor real | Object

type_synonym globals = "string \<Rightarrow> pyval option"

text \<open>\<^verbatim>\<open>name.get_shape()[0]\<close> for a global name.\<close>

definition shape0 :: "globals \<Rightarrow> string \<Rightarrow> error + int" where
  "shape0 g name =
     (case g name of
        None \<Rightarrow> Inl NameError
      | Some (Tensor ts) \<Rightarrow> Inr (int (length ts))
      | Some (ScalarTensor x) \<Rightarrow> Inl IndexError
      | Some Object \<Rightarrow> Inl AttributeError)"

definition left_riemann_sum_doc1 ::
  "globals \<Rightarrow> (real \<Rightarrow> real) \<Rightarrow> real list \<Rightarrow> error + scalar" where
  "left_riemann_sum_doc1 g f h =
     bindE (shape0 g ''t'') (\<lambda>n0.
     bindE (tf_slice h 0 (n0 - 1)) (\<lambda>left_points.
     bindE (shape0 g ''t'') (\<lambda>n1.
     bindE (tf_slice h 1 (n1 - 1)) (\<lambda>right_points.
     bindE (tensor_binop (-) right_points left_points) (\<lambda>intervals_length.
     let y = map f left_points in
     bindE (tensor_binop (*) y intervals_length) (\<lambda>p.
     Inr (Val (reduce_sum p))))))))"

definition right_riemann_sum_doc1 ::
  "globals \<Rightarrow> (real \<Rightarrow> real) \<Rightarrow> real list \<Rightarrow> error + scalar" where
  "right_riemann_sum_doc1 g f h =
     bindE (shape0 g ''t'') (\<lambda>n0.
     bindE (tf_slice h 0 (n0 - 1)) (\<lambda>left_points.
     bindE (shape0 g ''t'') (\<lambda>n1.
     bindE (tf_slice h 1 (n1 - 1)) (\<lambda>right_points.
     bindE (tensor_binop (-) right_points left_points) (\<lambda>intervals_length.
     let y = map f right_points in
     bindE (tensor_binop (*) y intervals_length) (\<lambda>p.
     Inr (Val (reduce_sum p))))))))"

text \<open>
  The names the first document binds, cell by cell: the imports \<open>pi\<close>, \<open>tf\<close> and
  \<open>plt\<close>, the two functions, and in the last code cell \<open>left_errors\<close>,
  \<open>right_errors\<close>, \<open>x_0\<close>, \<open>x_1\<close> and the loop variable \<open>n\<close> (the loop body stops
  at \<^verbatim>\<open>tf.linspace(a, b, 2**n+1)\<close> before it binds \<open>h\<close>).
\<close>

definition notebook1_globals :: globals where
  "notebook1_globals =
     map_of [(''pi'', Object), (''tf'', Object), (''plt'', Object),
             (''left_riemann_sum'', Object), (''right_riemann_sum'', Object),
             (''left_errors'', Object), (''right_errors'', Object),
             (''x_0'', ScalarTensor (- pi / 2)), (''x_1'', ScalarTensor (pi / 2)),
             (''n'', Object)]"

subsection \<open>The vocabulary of the specification\<close>

text \<open>A partition is uniform when all its consecutive differences are the same.\<close>

definition spacings :: "real list \<Rightarrow> real list" where
  "spacings h = map2 (-) (tl h) (butlast h)"

definition uniform :: "real list \<Rightarrow> bool" where
  "uniform h = (spacings h = replicate (length (spacings h)) (hd (spacings h)))"

text \<open>The mean of the consecutive differences \<open>h[i+1] - h[i]\<close>.\<close>

definition average_spacing :: "real list \<Rightarrow> real" where
  "average_spacing h =
     (\<Sum>i = 0..<length h - 1. h ! (i + 1) - h ! i) / real (length h - 1)"

text \<open>
  Simpson's rule in the words of the specification: weight 2 on the even interior
  indices, weight 4 on the odd interior indices, weight 1 on both ends.
\<close>

definition simpson_spec :: "(real \<Rightarrow> real) \<Rightarrow> real list \<Rightarrow> real" where
  "simpson_spec f h =
     average_spacing h / 3 *
       (f (h ! 0)
        + 2 * (\<Sum>i\<leftarrow>filter even [1..<length h - 1]. f (h ! i))
        + 4 * (\<Sum>i\<leftarrow>filter odd [1..<length h - 1]. f (h ! i))
        + f (h ! (length h - 1)))"

section \<open>The same functions in float64 arithmetic\<close>

text \<open>
  The notebook builds its tensors with \<^verbatim>\<open>dtype=tf.float64\<close>.  A float64 is a finite
  binary fraction (a real number), an infinity or NaN; the two zeros of the format are one
  value here, as they are for every comparison.  Each arithmetic operation computes the
  exact result and rounds it to the nearest float64, ties to the even significand; a result
  whose rounded magnitude reaches \<open>2\<^sup>1\<^sup>0\<^sup>2\<^sup>4\<close> is an infinity.
\<close>

datatype f64 = F real | PosInf | NegInf | NotANumber

definition pow2 :: "int \<Rightarrow> real" where
  "pow2 k = (if 0 \<le> k then 2 ^ nat k else 1 / 2 ^ nat (- k))"

text \<open>
  For a positive \<open>q\<close>, the exponent \<open>e\<close> with \<open>2\<^sup>e \<le> q < 2\<^sup>e\<^sup>+\<^sup>1\<close>, found by bisection
  between \<open>lo\<close> and \<open>hi\<close>; a \<open>q\<close> outside \<open>2\<^sup>l\<^sup>o \<dots> 2\<^sup>h\<^sup>i\<close> gives the nearer end.
\<close>

function log2_between :: "int \<Rightarrow> int \<Rightarrow> real \<Rightarrow> int" where
  "log2_between lo hi q =
     (if hi - lo \<le> 1 then lo
      else if pow2 ((lo + hi) div 2) \<le> q then log2_between ((lo + hi) div 2) hi q
      else log2_between lo ((lo + hi) div 2) q)"
  by pat_completeness auto
termination
  by (relation "measure (\<lambda>(lo, hi, q). nat (hi - lo))") auto

text \<open>
  The exact sum, product or quotient of two float64 lies between \<open>2\<^sup>-\<^sup>2\<^sup>2\<^sup>0\<^sup>0\<close> and
  \<open>2\<^sup>2\<^sup>2\<^sup>0\<^sup>0\<close>; beyond these bounds the rounding below gives zero or an infinity whatever
  the exponent.
\<close>

definition floor_log2 :: "real \<Rightarrow> int" where
  "floor_log2 q = log2_between (- 2200) 2200 q"

text \<open>The integer nearest to a real, the even one at a tie.\<close>

definition round_half_even :: "real \<Rightarrow> int" where
  "round_half_even x =
     (let n = \<lfloor>x\<rfloor>; r = x - of_int n
      in if r < 1 / 2 then n
         else if 1 / 2 < r then n + 1
         else if even n then n else n + 1)"

text \<open>
  Rounding a real to float64: 53 significant bits at the exponent of the number,
  never below the exponent \<open>-1022\<close> (there the spacing stays \<open>2\<^sup>-\<^sup>1\<^sup>0\<^sup>7\<^sup>4\<close>).
\<close>

definition round_f64 :: "real \<Rightarrow> f64" where
  "round_f64 q =
     (if q = 0 then F 0
      else
        let e = max (floor_log2 \<bar>q\<bar>) (- 1022);
            u = pow2 (e - 52);
            m = round_half_even (\<bar>q\<bar> / u);
            v = of_int m * u
        in if pow2 1024 \<le> v then (if 0 < q then PosInf else NegInf)
           else F (if 0 < q then v else - v))"

fun fneg :: "f64 \<Rightarrow> f64" where
  "fneg (F a) = F (- a)"
| "fneg PosInf = NegInf"
| "fneg NegInf = PosInf"
| "fneg NotANumber = NotANumber"

fun fadd :: "f64 \<Rightarrow> f64 \<Rightarrow> f64" where
  "fadd (F a) (F b) = round_f64 (a + b)"
| "fadd NotANumber y = NotANumber"
| "fadd x NotANumber = NotANumber"
| "fadd PosInf NegInf = NotANumber"
| "fadd NegInf PosInf = NotANumber"
| "fadd PosInf y = PosInf"
| "fadd NegInf y = NegInf"
| "fadd (F a) y = y"















section \<open>What the functions compute\<close>

lemma bindE_simps [simp]:
  "bindE (Inl e) k = Inl e"
  "bindE (Inr v) k = k v"
  by (simp_all add: bindE_def)

lemma tf_slice_left: "h \<noteq> [] \<Longrightarrow> tf_slice h 0 (int (length h) - 1) = Inr (butlast h)"
  by (cases h rule: rev_cases) (simp_all add: tf_slice_def Let_def)

lemma tf_slice_right: "h \<noteq> [] \<Longrightarrow> tf_slice h 1 (int (length h) - 1) = Inr (tl h)"
  by (cases h) (simp_all add: tf_slice_def Let_def)

lemma tf_slice_empty:
  "tf_slice [] 0 (int (length ([]::real list)) - 1) = Inr []"
  "tf_slice [] 1 (int (length ([]::real list)) - 1) = Inl InvalidArgumentError"
  by (simp_all add: tf_slice_def Let_def)

lemma tensor_binop_same: "length xs = length ys \<Longrightarrow> tensor_binop g xs ys = Inr (map2 g xs ys)"
  by (simp add: tensor_binop_def)

subsection \<open>Closed forms on a non-empty partition\<close>

lemma left_riemann_sum_closed:
  "h \<noteq> [] \<Longrightarrow>
   left_riemann_sum f h =
     Inr (Val (sum_list (map2 (*) (map f (butlast h)) (map2 (-) (tl h) (butlast h)))))"
  by (simp add: left_riemann_sum_def tf_slice_left tf_slice_right tensor_binop_same
      reduce_sum_def)

lemma right_riemann_sum_closed:
  "h \<noteq> [] \<Longrightarrow>
   right_riemann_sum f h =
     Inr (Val (sum_list (map2 (*) (map f (tl h)) (map2 (-) (tl h) (butlast h)))))"
  by (simp add: right_riemann_sum_def tf_slice_left tf_slice_right tensor_binop_same
      reduce_sum_def)

lemma trapezoidal_rule_closed:
  "h \<noteq> [] \<Longrightarrow>
   trapezoidal_rule f h =
     Inr (Val (sum_list (map2 (*) (map (\<lambda>x. 1 / 2 * x) (map2 (-) (tl h) (butlast h)))
                                   (map2 (+) (map f (butlast h)) (map f (tl h))))))"
  by (simp add: trapezoidal_rule_def tf_slice_left tf_slice_right tensor_binop_same
      reduce_sum_def)

lemma sum_list_map2_nth:
  fixes g :: "'a \<Rightarrow> 'b \<Rightarrow> real"
  assumes "length xs = length ys"
  shows "sum_list (map2 g xs ys) = (\<Sum>i = 0..<length xs. g (xs ! i) (ys ! i))"
  using assms by (simp add: sum_list_sum_nth)

subsection \<open>The sums over the sub-intervals, by index\<close>

lemma left_sum_indexed:
  fixes h :: "real list" and f :: "real \<Rightarrow> real"
  assumes "length h = n + 1"
  shows "sum_list (map2 (*) (map f (butlast h)) (map2 (-) (tl h) (butlast h)))
         = (\<Sum>i = 0..<n. (h ! (i + 1) - h ! i) * f (h ! i))"
proof -
  have "sum_list (map2 (*) (map f (butlast h)) (map2 (-) (tl h) (butlast h)))
        = (\<Sum>i = 0..<n. (map f (butlast h)) ! i * (map2 (-) (tl h) (butlast h)) ! i)"
    using assms by (subst sum_list_map2_nth) simp_all
  also have "\<dots> = (\<Sum>i = 0..<n. (h ! (i + 1) - h ! i) * f (h ! i))"
    using assms by (intro sum.cong) (simp_all add: nth_butlast nth_tl)
  finally show ?thesis .
qed

lemma right_sum_indexed:
  fixes h :: "real list" and f :: "real \<Rightarrow> real"
  assumes "length h = n + 1"
  shows "sum_list (map2 (*) (map f (tl h)) (map2 (-) (tl h) (butlast h)))
         = (\<Sum>i = 0..<n. (h ! (i + 1) - h ! i) * f (h ! (i + 1)))"
proof -
  have "sum_list (map2 (*) (map f (tl h)) (map2 (-) (tl h) (butlast h)))
        = (\<Sum>i = 0..<n. (map f (tl h)) ! i * (map2 (-) (tl h) (butlast h)) ! i)"
    using assms by (subst sum_list_map2_nth) simp_all
  also have "\<dots> = (\<Sum>i = 0..<n. (h ! (i + 1) - h ! i) * f (h ! (i + 1)))"
    using assms by (intro sum.cong) (simp_all add: nth_butlast nth_tl)
  finally show ?thesis .
qed

lemma trapezoid_sum_indexed:
  fixes h :: "real list" and f :: "real \<Rightarrow> real"
  assumes "length h = n + 1"
  shows "sum_list (map2 (*) (map (\<lambda>x. 1 / 2 * x) (map2 (-) (tl h) (butlast h)))
                            (map2 (+) (map f (butlast h)) (map f (tl h))))
         = (\<Sum>i = 0..<n. 1 / 2 * (h ! (i + 1) - h ! i) * (f (h ! i) + f (h ! (i + 1))))"
proof -
  have "sum_list (map2 (*) (map (\<lambda>x. 1 / 2 * x) (map2 (-) (tl h) (butlast h)))
                            (map2 (+) (map f (butlast h)) (map f (tl h))))
        = (\<Sum>i = 0..<n. (map (\<lambda>x. 1 / 2 * x) (map2 (-) (tl h) (butlast h))) ! i
                          * (map2 (+) (map f (butlast h)) (map f (tl h))) ! i)"
    using assms by (subst sum_list_map2_nth) simp_all
  also have "\<dots> = (\<Sum>i = 0..<n. 1 / 2 * (h ! (i + 1) - h ! i) * (f (h ! i) + f (h ! (i + 1))))"
    using assms by (intro sum.cong) (simp_all add: nth_butlast nth_tl)
  finally show ?thesis .
qed

subsection \<open>The float64 functions on a non-empty partition\<close>

declare log2_between.simps [simp del]

lemmas f64_eval =
  round_f64_def floor_log2_def round_half_even_def pow2_def Let_def log2_between.simps

text \<open>
  Rounding at work: \<open>1/10\<close> and \<open>1/3\<close> are not float64 and go to their nearest
  neighbours; a tie goes to the even significand; half of the smallest subnormal goes to
  zero; halfway between the largest float64 and \<open>2\<^sup>1\<^sup>0\<^sup>2\<^sup>4\<close> is already an infinity.
\<close>

lemma round_f64_examples:
  "round_f64 1 = F 1"
  "round_f64 (1 / 10) = F (3602879701896397 / 36028797018963968)"
  "round_f64 (- (1 / 3)) = F (- (6004799503160661 / 18014398509481984))"
  "round_f64 (2 ^ 53 + 1) = F (2 ^ 53)"
  "round_f64 (2 ^ 53 + 3) = F (2 ^ 53 + 4)"
  "round_f64 (1 / 2 ^ 1075) = F 0"
  "round_f64 (3 / 2 ^ 1075) = F (1 / 2 ^ 1073)"
  "round_f64 (2 ^ 1024 - 2 ^ 970) = PosInf"
  by (simp_all add: f64_eval)

lemma round_f64_minus: "round_f64 (- q) = fneg (round_f64 q)"
  by (simp add: round_f64_def Let_def)







section \<open>The Riemann sums\<close>

text \<open>
  C4.  For every integrand \<open>f\<close> and every partition \<open>h\<close> of length \<open>n + 1\<close> with
  \<open>n \<ge> 1\<close>, the left Riemann sum is the sum over \<open>i = 0, \<dots>, n - 1\<close> of
  \<open>(h[i+1] - h[i]) * f(h[i])\<close>, and the right Riemann sum is the sum over the same
  \<open>i\<close> of \<open>(h[i+1] - h[i]) * f(h[i+1])\<close>.
\<close>

theorem riemann_sums_formula:
  assumes "length h = n + 1" and "1 \<le> n"
  shows "left_riemann_sum f h = Inr (Val (\<Sum>i = 0..<n. (h ! (i + 1) - h ! i) * f (h ! i)))
       \<and> right_riemann_sum f h = Inr (Val (\<Sum>i = 0..<n. (h ! (i + 1) - h ! i) * f (h ! (i + 1))))"
proof -
  from assms(1) have ne: "h \<noteq> []" by auto
  show ?thesis
    using ne assms(1)
    by (simp add: left_riemann_sum_closed right_riemann_sum_closed
        left_sum_indexed right_sum_indexed)
qed

theorem riemann_sums_formula_witness:
  "length [0, 1, 3 :: real] = 2 + 1 \<and> (1::nat) \<le> 2
   \<and> left_riemann_sum (\<lambda>x. x * x) [0, 1, 3] = Inr (Val 2)
   \<and> right_riemann_sum (\<lambda>x. x * x) [0, 1, 3] = Inr (Val 19)"
proof -
  have a: "length [0, 1, 3 :: real] = 2 + 1" by simp
  have b: "(1::nat) \<le> 2" by simp
  show ?thesis
    using riemann_sums_formula [OF a b, of "\<lambda>x. x * x"]
    by (simp add: numeral_2_eq_2)
qed

subsection \<open>The trapezoidal sum is the mean of the two Riemann sums\<close>

lemma trapezoid_mean_indexed:
  fixes d a b :: "nat \<Rightarrow> real"
  shows "(\<Sum>i = 0..<n. 1 / 2 * d i * (a i + b i))
         = ((\<Sum>i = 0..<n. d i * a i) + (\<Sum>i = 0..<n. d i * b i)) / 2"
proof -
  have "(\<Sum>i = 0..<n. 1 / 2 * d i * (a i + b i))
        = (\<Sum>i = 0..<n. (d i * a i + d i * b i) / 2)"
    by (intro sum.cong) (simp_all add: algebra_simps)
  also have "\<dots> = (\<Sum>i = 0..<n. d i * a i + d i * b i) / 2"
    by (simp add: sum_divide_distrib)
  also have "\<dots> = ((\<Sum>i = 0..<n. d i * a i) + (\<Sum>i = 0..<n. d i * b i)) / 2"
    by (simp add: sum.distrib)
  finally show ?thesis .
qed

lemma quadrature_values:
  fixes h :: "real list" and f :: "real \<Rightarrow> real"
  assumes "2 \<le> length h"
  defines "n \<equiv> length h - 1"
  defines "l \<equiv> (\<Sum>i = 0..<n. (h ! (i + 1) - h ! i) * f (h ! i))"
  defines "r \<equiv> (\<Sum>i = 0..<n. (h ! (i + 1) - h ! i) * f (h ! (i + 1)))"
  shows "left_riemann_sum f h = Inr (Val l)"
    and "right_riemann_sum f h = Inr (Val r)"
    and "trapezoidal_rule f h = Inr (Val ((l + r) / 2))"
    and "trapezoidal_rule f h =
           Inr (Val (\<Sum>i = 0..<n. 1 / 2 * (h ! (i + 1) - h ! i) * (f (h ! i) + f (h ! (i + 1)))))"
proof -
  from assms(1) have ne: "h \<noteq> []" by auto
  from assms(1) have len: "length h = n + 1" by (simp add: n_def)
  show "left_riemann_sum f h = Inr (Val l)"
    using ne len by (simp add: left_riemann_sum_closed left_sum_indexed l_def)
  show "right_riemann_sum f h = Inr (Val r)"
    using ne len by (simp add: right_riemann_sum_closed right_sum_indexed r_def)
  show t: "trapezoidal_rule f h =
           Inr (Val (\<Sum>i = 0..<n. 1 / 2 * (h ! (i + 1) - h ! i) * (f (h ! i) + f (h ! (i + 1)))))"
    by (simp only: trapezoidal_rule_closed [OF ne] trapezoid_sum_indexed [OF len])
  show "trapezoidal_rule f h = Inr (Val ((l + r) / 2))"
    unfolding t l_def r_def by (simp only: trapezoid_mean_indexed)
qed

section \<open>The trapezoidal rule\<close>










subsection \<open>Reversing the partition\<close>



subsection \<open>Reversing the partition in float64\<close>



lemma fneg_fneg: "fneg (fneg x) = x"
  by (cases x) simp_all

lemma fadd_fneg: "fadd (fneg x) (fneg y) = fneg (fadd x y)"
  by (cases x; cases y) (simp_all add: round_f64_minus [symmetric])









subsection \<open>Simpson's rule as the notebook computes it\<close>

lemma tf_index_first: "h \<noteq> [] \<Longrightarrow> tf_index h 0 = Inr (h ! 0)"
  by (simp add: tf_index_def)

lemma tf_index_last: "h \<noteq> [] \<Longrightarrow> tf_index h (- 1) = Inr (h ! (length h - 1))"
  by (cases h rule: rev_cases) (simp_all add: tf_index_def nth_append)

lemma strided_slice_odd:
  assumes "h \<noteq> []"
  shows "strided_slice h 1 (- 1) 2 = map (\<lambda>i. h ! i) (filter odd [1..<length h - 1])"
proof -
  from assms have n: "1 \<le> length h" by (cases h) simp_all
  have b: "nat (min 1 (int (length h))) = 1" using n by simp
  have e: "nat (max 0 (int (length h) - 1)) = length h - 1" using n by simp
  have "filter (\<lambda>i. (i - 1) mod 2 = 0) [1..<length h - 1] = filter odd [1..<length h - 1]"
    by (rule filter_cong) (auto simp: odd_iff_mod_2_eq_one mod_eq_dvd_iff_nat)
  then show ?thesis
    by (simp add: strided_slice_def Let_def b e del: One_nat_def)
qed

lemma strided_slice_even:
  assumes "2 \<le> length h"
  shows "strided_slice h 2 (- 1) 2 = map (\<lambda>i. h ! i) (filter even [1..<length h - 1])"
proof -
  have b: "nat (min 2 (int (length h))) = 2" using assms by simp
  have e: "nat (max 0 (int (length h) - 1)) = length h - 1" using assms by simp
  have f: "filter (\<lambda>i. (i - 2) mod 2 = 0) [2..<length h - 1] = filter even [2..<length h - 1]"
    by (rule filter_cong) (auto simp: mod_eq_dvd_iff_nat)
  have "filter even [1..<length h - 1] = filter even [2..<length h - 1]"
  proof (cases "1 < length h - 1")
    case True
    then have "[1..<length h - 1] = 1 # [2..<length h - 1]"
      by (simp add: upt_conv_Cons numeral_2_eq_2)
    then show ?thesis by simp
  next
    case False
    then show ?thesis by simp
  qed
  with f show ?thesis
    by (simp add: strided_slice_def Let_def b e)
qed

lemma reduce_mean_spacings:
  fixes h :: "real list"
  assumes "2 \<le> length h"
  shows "reduce_mean (map2 (-) (tl h) (butlast h)) = Val (average_spacing h)"
proof -
  have ne: "map2 (-) (tl h) (butlast h) \<noteq> []"
    using assms by (cases h; cases "tl h") auto
  have len: "length (map2 (-) (tl h) (butlast h)) = length h - 1" by simp
  have "sum_list (map2 (-) (tl h) (butlast h)) = (\<Sum>i = 0..<length h - 1. tl h ! i - butlast h ! i)"
    by (subst sum_list_map2_nth) simp_all
  also have "\<dots> = (\<Sum>i = 0..<length h - 1. h ! (i + 1) - h ! i)"
    by (intro sum.cong) (simp_all add: nth_tl nth_butlast)
  finally show ?thesis
    using ne by (simp only: reduce_mean_def average_spacing_def len if_False)
qed

text \<open>
  On a partition of at least two points the notebook's Simpson rule puts the weight 2 on
  the odd interior indices and the weight 4 on the even interior indices.
\<close>

lemma simpson_rule_closed:
  fixes h :: "real list" and f :: "real \<Rightarrow> real"
  assumes "2 \<le> length h"
  shows "simpson_rule f h =
           Inr (Val (average_spacing h / 3 *
                      (f (h ! 0)
                       + 2 * (\<Sum>i\<leftarrow>filter odd [1..<length h - 1]. f (h ! i))
                       + 4 * (\<Sum>i\<leftarrow>filter even [1..<length h - 1]. f (h ! i))
                       + f (h ! (length h - 1)))))"
proof -
  from assms have ne: "h \<noteq> []" by auto
  show ?thesis
    by (simp add: simpson_rule_def tf_slice_left [OF ne] tf_slice_right [OF ne]
        tensor_binop_same reduce_mean_spacings [OF assms] tf_index_first [OF ne]
        tf_index_last [OF ne] strided_slice_odd [OF ne] strided_slice_even [OF assms]
        reduce_sum_def comp_def del: One_nat_def)
qed

lemma simpson_rule_single: "simpson_rule f [x] = Inr NaN"
  by (simp add: simpson_rule_def tf_slice_def tensor_binop_def reduce_mean_def tf_index_def)

lemma quadrature_empty:
  "left_riemann_sum f [] = Inl InvalidArgumentError"
  "right_riemann_sum f [] = Inl InvalidArgumentError"
  "trapezoidal_rule f [] = Inl InvalidArgumentError"
  "simpson_rule f [] = Inl InvalidArgumentError"
  by (simp_all add: left_riemann_sum_def right_riemann_sum_def trapezoidal_rule_def
      simpson_rule_def tf_slice_def)

lemma constant_integrand_three_rules:
  fixes h :: "real list"
  assumes "2 \<le> length h"
  shows "left_riemann_sum (\<lambda>x. c) h = Inr (Val (c * (h ! (length h - 1) - h ! 0)))"
    and "right_riemann_sum (\<lambda>x. c) h = Inr (Val (c * (h ! (length h - 1) - h ! 0)))"
    and "trapezoidal_rule (\<lambda>x. c) h = Inr (Val (c * (h ! (length h - 1) - h ! 0)))"
proof -
  have "(\<Sum>i = 0..<length h - 1. (h ! (i + 1) - h ! i) * c)
        = (\<Sum>i = 0..<length h - 1. h ! Suc i - h ! i) * c"
    by (simp add: sum_distrib_right)
  also have "\<dots> = c * (h ! (length h - 1) - h ! 0)"
    by (simp add: sum_Suc_diff')
  finally have s: "(\<Sum>i = 0..<length h - 1. (h ! (i + 1) - h ! i) * c)
                   = c * (h ! (length h - 1) - h ! 0)" .
  show "left_riemann_sum (\<lambda>x. c) h = Inr (Val (c * (h ! (length h - 1) - h ! 0)))"
    using quadrature_values(1) [OF assms, of "\<lambda>x. c"] by (simp only: s)
  show "right_riemann_sum (\<lambda>x. c) h = Inr (Val (c * (h ! (length h - 1) - h ! 0)))"
    using quadrature_values(2) [OF assms, of "\<lambda>x. c"] by (simp only: s)
  show "trapezoidal_rule (\<lambda>x. c) h = Inr (Val (c * (h ! (length h - 1) - h ! 0)))"
    using quadrature_values(3) [OF assms, of "\<lambda>x. c"] by (simp only: s) simp
qed

section \<open>Simpson's rule\<close>

text \<open>
  C1.  The specification gives Simpson's rule as \<open>average_spacing / 3\<close> times
  \<open>f(h[0])\<close>, plus twice the sum of \<open>f\<close> at the even interior indices, plus four times
  the sum of \<open>f\<close> at the odd interior indices, plus \<open>f(h[last])\<close>, which is also the
  formula of the notebook's own text.  The function has the two weights the other way
  round (\<open>simpson_rule_closed\<close>): on the uniform three-point partition \<open>[0, 1, 2]\<close> and
  \<open>f(x) = x\<close> it returns \<open>4/3\<close>, where the formula gives \<open>2\<close>.
\<close>

theorem simpson_rule_weights_example:
  "uniform [0, 1, 2] \<and> odd (length [0, 1, 2 :: real])
   \<and> simpson_rule (\<lambda>x. x) [0, 1, 2] = Inr (Val (4 / 3))
   \<and> simpson_spec (\<lambda>x. x) [0, 1, 2] = 2"
  by (simp add: simpson_rule_closed simpson_spec_def average_spacing_def upt_rec
      uniform_def spacings_def)

text \<open>
  C3.  For a constant integrand \<open>f(x) = c\<close> and a strictly increasing partition, the
  left and right Riemann sums and the trapezoidal rule return \<open>c * (h[last] - h[0])\<close>
  (\<open>constant_integrand_three_rules\<close>).  Simpson's rule, with its weights exchanged, does
  not: for \<open>c = 3\<close> on the uniform partition \<open>[0, 1, 2]\<close> it returns \<open>4\<close>, and
  \<open>c * (h[last] - h[0])\<close> is \<open>6\<close>.
\<close>

theorem simpson_rule_constant_example:
  "sorted_wrt (<) [0, 1, 2 :: real] \<and> uniform [0, 1, 2]
   \<and> simpson_rule (\<lambda>x. 3) [0, 1, 2] = Inr (Val 4)
   \<and> 3 * ([0, 1, 2] ! (length [0, 1, 2 :: real] - 1) - [0, 1, 2] ! 0) = (6 :: real)"
  by (simp add: simpson_rule_closed average_spacing_def upt_rec uniform_def spacings_def)

text \<open>
  C7.  For \<open>f(x) = x\<^sup>2\<close> on a uniform partition of \<open>[0, 1]\<close> of odd length, Simpson's
  rule should return \<open>1/3\<close>.  On the partition \<open>[0, 1/2, 1]\<close> the function returns
  \<open>1/4\<close>.
\<close>

theorem simpson_rule_square_example:
  "uniform [0, 1 / 2, 1] \<and> odd (length [0, 1 / 2, 1 :: real])
   \<and> simpson_rule (\<lambda>x. x\<^sup>2) [0, 1 / 2, 1] = Inr (Val (1 / 4))
   \<and> simpson_spec (\<lambda>x. x\<^sup>2) [0, 1 / 2, 1] = 1 / 3"
  by (simp add: simpson_rule_closed simpson_spec_def average_spacing_def upt_rec
      uniform_def spacings_def power2_eq_square)

section \<open>The first document\<close>

lemma doc1_unbound_name:
  assumes "g ''t'' = None"
  shows "left_riemann_sum_doc1 g f h = Inl NameError"
    and "right_riemann_sum_doc1 g f h = Inl NameError"
  using assms by (simp_all add: left_riemann_sum_doc1_def right_riemann_sum_doc1_def shape0_def)

lemma notebook1_globals_t: "notebook1_globals ''t'' = None"
  by (simp add: notebook1_globals_def)

text \<open>
  C9.  In the first document of the notebook every call of \<open>left_riemann_sum\<close> or of
  \<open>right_riemann_sum\<close> raises a NameError and returns no value, whatever the integrand
  and the partition: both bodies read \<open>t.get_shape()\<close>, and the document binds no name
  \<open>t\<close>.
\<close>

theorem doc1_riemann_sums_raise_NameError:
  "left_riemann_sum_doc1 notebook1_globals f h = Inl NameError
   \<and> right_riemann_sum_doc1 notebook1_globals f h = Inl NameError"
  by (simp add: doc1_unbound_name notebook1_globals_t)

lemma doc1_bound_example:
  "left_riemann_sum_doc1 (notebook1_globals(''t'' \<mapsto> Tensor [0, 1, 3])) (\<lambda>x. x * x) [0, 1, 3]
   = Inr (Val 2)"
  by (simp add: left_riemann_sum_doc1_def shape0_def tf_slice_def tensor_binop_def
      reduce_sum_def)

section \<open>Validation of the partition\<close>



end
